theory Spec2Isabelle
  imports Main
begin

section \<open>JavaScript strings, numbers and object lookups\<close>

text \<open>
  A JavaScript string is modelled as a \<^typ>\<open>string\<close> whose characters are the code units
  \<open>0..255\<close> (the Latin-1 range). Numbers are the integers that the catalogue queries
  deliver, rendered in decimal by template literals.
\<close>

definition toLowerChar :: "char \<Rightarrow> char" where
  \<comment> \<open>\<open>String.prototype.toLowerCase\<close> on one Latin-1 code unit: \<open>A..Z\<close> and
      \<open>U+00C0..U+00DE\<close> except \<open>U+00D7\<close> move up by 32.\<close>
  "toLowerChar c =
     (let n = (of_char c :: nat)
      in if (65 \<le> n \<and> n \<le> 90) \<or> (192 \<le> n \<and> n \<le> 222 \<and> n \<noteq> 215)
         then char_of (n + 32) else c)"

definition toLowerCase :: "string \<Rightarrow> string" where
  "toLowerCase s = map toLowerChar s"

definition asciiUpperChar :: "char \<Rightarrow> char" where
  "asciiUpperChar c =
     (let n = (of_char c :: nat)
      in if 97 \<le> n \<and> n \<le> 122 then char_of (n - 32) else c)"

definition toUpperCase :: "string \<Rightarrow> string" where
  \<comment> \<open>Only ever applied to the literals \<open>true\<close> and \<open>false\<close>, so the ASCII mapping is exact.\<close>
  "toUpperCase s = map asciiUpperChar s"

definition asciiLowerChar :: "char \<Rightarrow> char" where
  "asciiLowerChar c =
     (let n = (of_char c :: nat)
      in if 65 \<le> n \<and> n \<le> 90 then char_of (n + 32) else c)"

definition startsWith :: "string \<Rightarrow> string \<Rightarrow> bool" where
  \<comment> \<open>\<open>s.startsWith(p)\<close>\<close>
  "startsWith p s = (take (length p) s = p)"

definition endsWith :: "string \<Rightarrow> string \<Rightarrow> bool" where
  \<comment> \<open>\<open>s.endsWith(p)\<close>\<close>
  "endsWith p s = (length p \<le> length s \<and> drop (length s - length p) s = p)"

fun str_includes :: "string \<Rightarrow> string \<Rightarrow> bool" where
  \<comment> \<open>\<open>s.includes(p)\<close>: \<open>p\<close> occurs as a contiguous piece of \<open>s\<close>.\<close>
  "str_includes p [] = (p = [])"
| "str_includes p (c # cs) = (startsWith p (c # cs) \<or> str_includes p cs)"

definition isWhiteSpace :: "char \<Rightarrow> bool" where
  \<comment> \<open>WhiteSpace and LineTerminator code units below 256: TAB, LF, VT, FF, CR, SP, NBSP.\<close>
  "isWhiteSpace c = ((of_char c :: nat) \<in> {9, 10, 11, 12, 13, 32, 160})"

definition trim :: "string \<Rightarrow> string" where
  \<comment> \<open>\<open>s.trim()\<close>\<close>
  "trim s = rev (dropWhile isWhiteSpace (rev (dropWhile isWhiteSpace s)))"

definition digit_char :: "nat \<Rightarrow> char" where
  "digit_char n = ''0123456789'' ! n"

fun show_nat :: "nat \<Rightarrow> string" where
  "show_nat n = (if n < 10 then [digit_char n] else show_nat (n div 10) @ [digit_char (n mod 10)])"

declare show_nat.simps [simp del]

definition js_num :: "int \<Rightarrow> string" where
  \<comment> \<open>\<open>`${n}`\<close> for an integer \<open>n\<close>\<close>
  "js_num n = (if n < 0 then CHR ''-'' # show_nat (nat (- n)) else show_nat (nat n))"

definition num_truthy :: "int option \<Rightarrow> bool" where
  \<comment> \<open>\<open>if (n)\<close> for \<open>n: number | null\<close>: \<open>null\<close> and \<open>0\<close> are falsy.\<close>
  "num_truthy x = (case x of None \<Rightarrow> False | Some n \<Rightarrow> n \<noteq> 0)"

definition str_truthy :: "string option \<Rightarrow> bool" where
  \<comment> \<open>\<open>if (s)\<close> for \<open>s: string | null\<close>: \<open>null\<close> and the empty string are falsy.\<close>
  "str_truthy x = (case x of None \<Rightarrow> False | Some s \<Rightarrow> s \<noteq> [])"

text \<open>
  The rule tables are object literals indexed by \<open>TABLE[key]\<close>. A property read on an
  object literal finds the literal's own entries and, failing that, the members that
  every object inherits from \<open>Object.prototype\<close>; only then is it \<open>undefined\<close>.
  An inherited member is a function (or, for \<open>__proto__\<close>, the prototype object): it is
  truthy and it is not a string.
\<close>

datatype jsval = JStr string | JInherited string

definition object_prototype_members :: "string list" where
  "object_prototype_members =
     [''constructor'', ''__defineGetter__'', ''__defineSetter__'', ''hasOwnProperty'',
      ''__lookupGetter__'', ''__lookupSetter__'', ''isPrototypeOf'', ''propertyIsEnumerable'',
      ''toString'', ''valueOf'', ''__proto__'', ''toLocaleString'']"

definition record_get :: "(string \<times> string) list \<Rightarrow> string \<Rightarrow> jsval option" where
  \<comment> \<open>\<open>TABLE[key]\<close>; \<open>None\<close> is \<open>undefined\<close>.\<close>
  "record_get tbl k =
     (case map_of tbl k of
        Some v \<Rightarrow> Some (JStr v)
      | None \<Rightarrow> if k \<in> set object_prototype_members then Some (JInherited k) else None)"

fun js_truthy :: "jsval option \<Rightarrow> bool" where
  "js_truthy None = False"
| "js_truthy (Some (JStr s)) = (s \<noteq> [])"
| "js_truthy (Some (JInherited k)) = True"

definition js_or :: "jsval option \<Rightarrow> jsval option \<Rightarrow> jsval option" where
  \<comment> \<open>\<open>a || b\<close>\<close>
  "js_or a b = (if js_truthy a then a else b)"

section \<open>Metadata model\<close>

record SourceColumn =
  schemaName :: string
  tableName :: string
  columnName :: string
  ordinalPosition :: int
  columnDefault :: "string option"
  isNullable :: bool
  dataType :: string
  udtName :: string
  characterMaximumLength :: "int option"
  numericPrecision :: "int option"
  numericScale :: "int option"
  isIdentity :: bool
  identityGeneration :: "string option"

record SnowflakeColumn =
  sf_name :: string
  sf_type :: jsval
  sf_nullable :: bool
  sf_defaultValue :: "string option"
  sf_isIdentity :: bool
  sf_identitySeed :: int
  sf_identityIncrement :: int
  sf_comment :: "string option"

record TypeMappingResult =
  snowflakeType :: jsval
  comment :: "string option"

section \<open>MySQL type mapper\<close>

definition MYSQL_SIMPLE_TYPE_MAP :: "(string \<times> string) list" where
  "MYSQL_SIMPLE_TYPE_MAP =
     [(''smallint'', ''SMALLINT''), (''mediumint'', ''INTEGER''), (''int'', ''INTEGER''),
      (''integer'', ''INTEGER''), (''bigint'', ''BIGINT''),
      (''float'', ''FLOAT''), (''double'', ''DOUBLE''), (''real'', ''DOUBLE''),
      (''boolean'', ''BOOLEAN''), (''bool'', ''BOOLEAN''),
      (''tinytext'', ''VARCHAR''), (''text'', ''VARCHAR''), (''mediumtext'', ''VARCHAR''),
      (''longtext'', ''VARCHAR''),
      (''date'', ''DATE''), (''time'', ''TIME''), (''year'', ''INTEGER''),
      (''datetime'', ''TIMESTAMP_NTZ''), (''timestamp'', ''TIMESTAMP_TZ''),
      (''json'', ''VARIANT''),
      (''tinyblob'', ''BINARY''), (''blob'', ''BINARY''), (''mediumblob'', ''BINARY''),
      (''longblob'', ''BINARY''), (''binary'', ''BINARY''), (''varbinary'', ''BINARY''),
      (''geometry'', ''VARCHAR''), (''point'', ''VARCHAR''), (''linestring'', ''VARCHAR''),
      (''polygon'', ''VARCHAR''), (''multipoint'', ''VARCHAR''),
      (''multilinestring'', ''VARCHAR''), (''multipolygon'', ''VARCHAR''),
      (''geometrycollection'', ''VARCHAR''),
      (''bit'', ''BOOLEAN'')]"

definition isTinyint1 :: "SourceColumn \<Rightarrow> bool" where
  "isTinyint1 column =
     (let colType = toLowerCase (udtName column)
      in colType = ''tinyint(1)'' \<or>
         (dataType column = ''tinyint'' \<and> numericPrecision column = Some 3 \<and>
          numericScale column = Some 0 \<and> characterMaximumLength column = None))"

definition mysql_mapType :: "SourceColumn \<Rightarrow> TypeMappingResult" where
  "mysql_mapType column =
     (let dt = toLowerCase (dataType column);
          colType = toLowerCase (udtName column)
      in if dt = ''tinyint'' then
           (if isTinyint1 column
            then \<lparr>snowflakeType = JStr ''BOOLEAN'', comment = None\<rparr>
            else \<lparr>snowflakeType = JStr ''SMALLINT'', comment = None\<rparr>)
         else if dt = ''enum'' then
           \<lparr>snowflakeType = JStr ''VARCHAR'', comment = Some (''MySQL ENUM type: '' @ colType)\<rparr>
         else if dt = ''set'' then
           \<lparr>snowflakeType = JStr ''VARCHAR'', comment = Some (''MySQL SET type: '' @ colType)\<rparr>
         else if dt = ''decimal'' \<or> dt = ''numeric'' then
           (case (numericPrecision column, numericScale column) of
              (Some p, Some s) \<Rightarrow>
                \<lparr>snowflakeType = JStr (''NUMBER('' @ js_num p @ '','' @ js_num s @ '')''),
                 comment = None\<rparr>
            | (Some p, None) \<Rightarrow>
                \<lparr>snowflakeType = JStr (''NUMBER('' @ js_num p @ '')''), comment = None\<rparr>
            | (None, _) \<Rightarrow> \<lparr>snowflakeType = JStr ''NUMBER(10,0)'', comment = None\<rparr>)
         else if dt = ''varchar'' then
           (if num_truthy (characterMaximumLength column)
            then \<lparr>snowflakeType =
                    JStr (''VARCHAR('' @ js_num (the (characterMaximumLength column)) @ '')''),
                  comment = None\<rparr>
            else \<lparr>snowflakeType = JStr ''VARCHAR'', comment = None\<rparr>)
         else if dt = ''char'' then
           (if num_truthy (characterMaximumLength column)
            then \<lparr>snowflakeType =
                    JStr (''CHAR('' @ js_num (the (characterMaximumLength column)) @ '')''),
                  comment = None\<rparr>
            else \<lparr>snowflakeType = JStr ''CHAR(1)'', comment = None\<rparr>)
         else
           (let mapped = record_get MYSQL_SIMPLE_TYPE_MAP dt
            in if js_truthy mapped
               then \<lparr>snowflakeType = the mapped, comment = None\<rparr>
               else \<lparr>snowflakeType = JStr ''VARCHAR'',
                     comment = Some (''Unmapped MySQL type: '' @ colType @ '' ('' @ dt @ '')'')\<rparr>))"

definition mysql_mapDefault :: "string \<Rightarrow> string \<Rightarrow> string option" where
  "mysql_mapDefault mysqlDefault dt =
     (if mysqlDefault = ''CURRENT_TIMESTAMP'' \<or> mysqlDefault = ''current_timestamp()''
      then Some ''CURRENT_TIMESTAMP()''
      else if dt = ''tinyint'' \<and> mysqlDefault = ''1'' then Some ''TRUE''
      else if dt = ''tinyint'' \<and> mysqlDefault = ''0'' then Some ''FALSE''
      else if mysqlDefault = ''NULL'' \<or> mysqlDefault = ''null'' then None
      else Some mysqlDefault)"

definition mapMysqlColumn :: "SourceColumn \<Rightarrow> SnowflakeColumn" where
  "mapMysqlColumn column =
     (let isAutoIncrement = isIdentity column;
          r = mysql_mapType column;
          defaultValue =
            (if str_truthy (columnDefault column) \<and> \<not> isAutoIncrement
             then mysql_mapDefault (the (columnDefault column)) (dataType column)
             else None)
      in \<lparr>sf_name = columnName column,
          sf_type = snowflakeType r,
          sf_nullable = isNullable column,
          sf_defaultValue = defaultValue,
          sf_isIdentity = isAutoIncrement,
          sf_identitySeed = 1,
          sf_identityIncrement = 1,
          sf_comment = comment r\<rparr>)"

section \<open>SQL Server type mapper\<close>

definition MSSQL_SIMPLE_TYPE_MAP :: "(string \<times> string) list" where
  "MSSQL_SIMPLE_TYPE_MAP =
     [(''bit'', ''BOOLEAN''), (''tinyint'', ''SMALLINT''), (''smallint'', ''SMALLINT''),
      (''int'', ''INTEGER''), (''bigint'', ''BIGINT''),
      (''float'', ''FLOAT''), (''real'', ''FLOAT''),
      (''money'', ''NUMBER(19,4)''), (''smallmoney'', ''NUMBER(10,4)''),
      (''date'', ''DATE''), (''time'', ''TIME''), (''datetime'', ''TIMESTAMP_NTZ''),
      (''datetime2'', ''TIMESTAMP_NTZ''), (''smalldatetime'', ''TIMESTAMP_NTZ''),
      (''datetimeoffset'', ''TIMESTAMP_TZ''),
      (''text'', ''VARCHAR''), (''ntext'', ''VARCHAR''),
      (''image'', ''BINARY''),
      (''uniqueidentifier'', ''VARCHAR(36)''), (''xml'', ''VARCHAR''),
      (''sql_variant'', ''VARIANT''), (''hierarchyid'', ''VARCHAR''),
      (''geography'', ''VARCHAR''), (''geometry'', ''VARCHAR''),
      (''timestamp'', ''BINARY(8)''), (''rowversion'', ''BINARY(8)'')]"

definition mssql_mapType :: "SourceColumn \<Rightarrow> TypeMappingResult" where
  "mssql_mapType column =
     (let dt = toLowerCase (dataType column)
      in if dt = ''decimal'' \<or> dt = ''numeric'' then
           (case (numericPrecision column, numericScale column) of
              (Some p, Some s) \<Rightarrow>
                \<lparr>snowflakeType = JStr (''NUMBER('' @ js_num p @ '','' @ js_num s @ '')''),
                 comment = None\<rparr>
            | (Some p, None) \<Rightarrow>
                \<lparr>snowflakeType = JStr (''NUMBER('' @ js_num p @ '')''), comment = None\<rparr>
            | (None, _) \<Rightarrow> \<lparr>snowflakeType = JStr ''NUMBER(18,0)'', comment = None\<rparr>)
         else if dt = ''varchar'' \<or> dt = ''nvarchar'' then
           (if characterMaximumLength column = Some (- 1)
            then \<lparr>snowflakeType = JStr ''VARCHAR'', comment = None\<rparr>
            else if num_truthy (characterMaximumLength column)
            then \<lparr>snowflakeType =
                    JStr (''VARCHAR('' @ js_num (the (characterMaximumLength column)) @ '')''),
                  comment = None\<rparr>
            else \<lparr>snowflakeType = JStr ''VARCHAR'', comment = None\<rparr>)
         else if dt = ''char'' \<or> dt = ''nchar'' then
           (if num_truthy (characterMaximumLength column)
            then \<lparr>snowflakeType =
                    JStr (''CHAR('' @ js_num (the (characterMaximumLength column)) @ '')''),
                  comment = None\<rparr>
            else \<lparr>snowflakeType = JStr ''CHAR(1)'', comment = None\<rparr>)
         else if dt = ''binary'' \<or> dt = ''varbinary'' then
           (if characterMaximumLength column = Some (- 1)
            then \<lparr>snowflakeType = JStr ''BINARY'', comment = None\<rparr>
            else if num_truthy (characterMaximumLength column)
            then \<lparr>snowflakeType =
                    JStr (''BINARY('' @ js_num (the (characterMaximumLength column)) @ '')''),
                  comment = None\<rparr>
            else \<lparr>snowflakeType = JStr ''BINARY'', comment = None\<rparr>)
         else
           (let mapped = record_get MSSQL_SIMPLE_TYPE_MAP dt
            in if js_truthy mapped
               then \<lparr>snowflakeType = the mapped, comment = None\<rparr>
               else \<lparr>snowflakeType = JStr ''VARCHAR'',
                     comment = Some (''Unmapped MSSQL type: '' @ dt)\<rparr>))"

definition slice_1_m1 :: "string \<Rightarrow> string" where
  \<comment> \<open>\<open>s.slice(1, -1)\<close>\<close>
  "slice_1_m1 s = butlast (tl s)"

function strip_outer_parens :: "string \<Rightarrow> string" where
  \<comment> \<open>\<open>while (cleaned.startsWith('(') && cleaned.endsWith(')')) cleaned = cleaned.slice(1, -1)\<close>\<close>
  "strip_outer_parens cleaned =
     (if startsWith ''('' cleaned \<and> endsWith '')'' cleaned
      then strip_outer_parens (slice_1_m1 cleaned) else cleaned)"
  by pat_completeness auto
termination
proof (relation "measure length")
  show "wf (measure length)" by simp
next
  fix cleaned :: string
  assume "startsWith ''('' cleaned \<and> endsWith '')'' cleaned"
  then have "cleaned \<noteq> []" by (auto simp: startsWith_def)
  then show "(slice_1_m1 cleaned, cleaned) \<in> measure length"
    by (cases cleaned) (simp_all add: slice_1_m1_def)
qed

declare strip_outer_parens.simps [simp del]

definition mssql_mapDefault :: "string \<Rightarrow> string option" where
  "mssql_mapDefault mssqlDefault =
     (let cleaned = strip_outer_parens mssqlDefault;
          l = toLowerCase cleaned
      in if l = ''getdate()'' \<or> l = ''sysdatetime()'' then Some ''CURRENT_TIMESTAMP()''
         else if l = ''getutcdate()'' \<or> l = ''sysutcdatetime()'' then Some ''CURRENT_TIMESTAMP()''
         else if l = ''sysdatetimeoffset()'' then Some ''CURRENT_TIMESTAMP()''
         else if l = ''newid()'' then None
         else if cleaned \<noteq> [] then Some cleaned
         else None)"

fun split_on :: "char \<Rightarrow> string \<Rightarrow> string list" where
  \<comment> \<open>\<open>s.split(sep)\<close> for a one-character separator\<close>
  "split_on sep [] = [[]]"
| "split_on sep (c # cs) =
     (if c = sep then [] # split_on sep cs
      else (case split_on sep cs of p # ps \<Rightarrow> (c # p) # ps | [] \<Rightarrow> [[c]]))"

definition isDigit :: "char \<Rightarrow> bool" where
  "isDigit c = (48 \<le> (of_char c :: nat) \<and> (of_char c :: nat) \<le> 57)"

definition digits_value :: "string \<Rightarrow> int" where
  "digits_value ds = foldl (\<lambda>acc c. 10 * acc + (int (of_char c) - 48)) 0 ds"

definition parseInt10 :: "string \<Rightarrow> int option" where
  \<comment> \<open>\<open>parseInt(s, 10)\<close>; \<open>None\<close> is \<open>NaN\<close>. Exact for results below \<open>2^53\<close> in magnitude.\<close>
  "parseInt10 s =
     (let t = dropWhile isWhiteSpace s;
          neg = (t \<noteq> [] \<and> hd t = CHR ''-'');
          u = (if t \<noteq> [] \<and> (hd t = CHR ''-'' \<or> hd t = CHR ''+'') then tl t else t);
          ds = takeWhile isDigit u
      in if ds = [] then None
         else Some (if neg then - digits_value ds else digits_value ds))"

definition or_1 :: "int option \<Rightarrow> int" where
  \<comment> \<open>\<open>n || 1\<close>: \<open>NaN\<close> and \<open>0\<close> are falsy.\<close>
  "or_1 x = (case x of None \<Rightarrow> 1 | Some n \<Rightarrow> if n = 0 then 1 else n)"

definition mapMssqlColumn :: "SourceColumn \<Rightarrow> SnowflakeColumn" where
  "mapMssqlColumn column =
     (let isIdentityCol = isIdentity column;
          r = mssql_mapType column;
          parts = (if isIdentityCol \<and> str_truthy (identityGeneration column)
                   then split_on CHR '','' (the (identityGeneration column)) else []);
          identitySeed = (if length parts = 2 then or_1 (parseInt10 (parts ! 0)) else 1);
          identityIncrement = (if length parts = 2 then or_1 (parseInt10 (parts ! 1)) else 1);
          defaultValue =
            (if str_truthy (columnDefault column) \<and> \<not> isIdentityCol
             then mssql_mapDefault (the (columnDefault column))
             else None)
      in \<lparr>sf_name = columnName column,
          sf_type = snowflakeType r,
          sf_nullable = isNullable column,
          sf_defaultValue = defaultValue,
          sf_isIdentity = isIdentityCol,
          sf_identitySeed = identitySeed,
          sf_identityIncrement = identityIncrement,
          sf_comment = comment r\<rparr>)"

section \<open>PostgreSQL type mapper\<close>

definition PG_SIMPLE_TYPE_MAP :: "(string \<times> string) list" where
  "PG_SIMPLE_TYPE_MAP =
     [(''int2'', ''SMALLINT''), (''int4'', ''INTEGER''), (''int8'', ''BIGINT''),
      (''smallint'', ''SMALLINT''), (''integer'', ''INTEGER''), (''bigint'', ''BIGINT''),
      (''float4'', ''FLOAT''), (''float8'', ''DOUBLE''), (''real'', ''FLOAT''),
      (''double precision'', ''DOUBLE''), (''money'', ''NUMBER(19,4)''),
      (''bool'', ''BOOLEAN''), (''boolean'', ''BOOLEAN''),
      (''text'', ''VARCHAR''), (''name'', ''VARCHAR''), (''char'', ''CHAR''),
      (''bpchar'', ''CHAR''),
      (''date'', ''DATE''), (''time'', ''TIME''), (''timetz'', ''TIME''),
      (''timestamp'', ''TIMESTAMP_NTZ''), (''timestamptz'', ''TIMESTAMP_TZ''),
      (''json'', ''VARIANT''), (''jsonb'', ''VARIANT''),
      (''bytea'', ''BINARY''),
      (''uuid'', ''VARCHAR(36)''),
      (''inet'', ''VARCHAR(45)''), (''cidr'', ''VARCHAR(49)''), (''macaddr'', ''VARCHAR(17)''),
      (''macaddr8'', ''VARCHAR(23)''),
      (''point'', ''VARCHAR''), (''line'', ''VARCHAR''), (''lseg'', ''VARCHAR''),
      (''box'', ''VARCHAR''), (''path'', ''VARCHAR''), (''polygon'', ''VARCHAR''),
      (''circle'', ''VARCHAR''),
      (''xml'', ''VARCHAR''), (''interval'', ''VARCHAR''), (''tsvector'', ''VARCHAR''),
      (''tsquery'', ''VARCHAR''), (''oid'', ''INTEGER''), (''regclass'', ''VARCHAR''),
      (''regtype'', ''VARCHAR'')]"

definition pg_mapType :: "SourceColumn \<Rightarrow> TypeMappingResult" where
  "pg_mapType column =
     (let udt = udtName column;
          dt = dataType column
      in if startsWith ''_'' udt then
           (let baseType = drop 1 udt;
                mappedBase = record_get PG_SIMPLE_TYPE_MAP baseType
            in \<lparr>snowflakeType = JStr ''ARRAY'',
                comment = Some (''PostgreSQL array type: '' @ baseType @ ''[]'' @
                  (if js_truthy mappedBase then []
                   else '' (base type '' @ baseType @ '' not directly mapped)''))\<rparr>)
         else if udt = ''numeric'' \<or> dt = ''numeric'' then
           (case (numericPrecision column, numericScale column) of
              (Some p, Some s) \<Rightarrow>
                \<lparr>snowflakeType = JStr (''NUMBER('' @ js_num p @ '','' @ js_num s @ '')''),
                 comment = None\<rparr>
            | (Some p, None) \<Rightarrow>
                \<lparr>snowflakeType = JStr (''NUMBER('' @ js_num p @ '')''), comment = None\<rparr>
            | (None, _) \<Rightarrow> \<lparr>snowflakeType = JStr ''NUMBER(38,0)'', comment = None\<rparr>)
         else if udt = ''varchar'' \<or> dt = ''character varying'' then
           (if num_truthy (characterMaximumLength column)
            then \<lparr>snowflakeType =
                    JStr (''VARCHAR('' @ js_num (the (characterMaximumLength column)) @ '')''),
                  comment = None\<rparr>
            else \<lparr>snowflakeType = JStr ''VARCHAR'', comment = None\<rparr>)
         else if udt = ''bpchar'' \<or> udt = ''char'' \<or> dt = ''character'' then
           (if num_truthy (characterMaximumLength column)
            then \<lparr>snowflakeType =
                    JStr (''CHAR('' @ js_num (the (characterMaximumLength column)) @ '')''),
                  comment = None\<rparr>
            else \<lparr>snowflakeType = JStr ''CHAR(1)'', comment = None\<rparr>)
         else
           (let mapped = js_or (record_get PG_SIMPLE_TYPE_MAP udt)
                               (record_get PG_SIMPLE_TYPE_MAP dt)
            in if js_truthy mapped
               then \<lparr>snowflakeType = the mapped,
                     comment = (if udt = ''interval''
                                then Some ''PostgreSQL INTERVAL has no direct Snowflake equivalent''
                                else None)\<rparr>
               else if dt = ''USER-DEFINED''
               then \<lparr>snowflakeType = JStr ''VARCHAR'',
                     comment = Some (''PostgreSQL user-defined type: '' @ udt)\<rparr>
               else \<lparr>snowflakeType = JStr ''VARCHAR'',
                     comment = Some (''Unmapped PostgreSQL type: '' @ udt @ '' ('' @ dt @ '')'')\<rparr>))"

definition test_nextval :: "string \<Rightarrow> bool" where
  \<comment> \<open>\<open>/nextval\(/i.test(s)\<close>: under the \<open>i\<close> flag an ASCII pattern letter matches
      exactly its two ASCII cases.\<close>
  "test_nextval s = str_includes ''nextval('' (map asciiLowerChar s)"

definition isSerialColumn :: "SourceColumn \<Rightarrow> bool" where
  "isSerialColumn column =
     (if isIdentity column then True
      else if str_truthy (columnDefault column) \<and> test_nextval (the (columnDefault column))
      then True
      else False)"

definition getSerialBaseType :: "string \<Rightarrow> string" where
  "getSerialBaseType udt =
     (if udt = ''int2'' then ''SMALLINT''
      else if udt = ''int4'' then ''INTEGER''
      else if udt = ''int8'' then ''BIGINT''
      else ''INTEGER'')"

definition cast_class :: "char \<Rightarrow> bool" where
  \<comment> \<open>the character class \<open>[a-zA-Z_ ]\<close>\<close>
  "cast_class c =
     (let n = (of_char c :: nat)
      in (97 \<le> n \<and> n \<le> 122) \<or> (65 \<le> n \<and> n \<le> 90) \<or> n = 95 \<or> n = 32)"

definition drop_brackets :: "string \<Rightarrow> string" where
  \<comment> \<open>the optional group \<open>(\[\])?\<close>\<close>
  "drop_brackets s = (if startsWith ''[]'' s then drop 2 s else s)"

function strip_casts :: "string \<Rightarrow> string" where
  \<comment> \<open>\<open>s.replace(/::[a-zA-Z_ ]+(\[\])?/g, '')\<close>: at each position, left to right, a match
      is \<open>::\<close>, the longest non-empty run of class characters, and \<open>[]\<close> if it follows;
      the scan resumes after the match.\<close>
  "strip_casts (a # b # c # rest) =
     (if a = CHR '':'' \<and> b = CHR '':'' \<and> cast_class c
      then strip_casts (drop_brackets (dropWhile cast_class rest))
      else a # strip_casts (b # c # rest))"
| "strip_casts [a, b] = [a, b]"
| "strip_casts [a] = [a]"
| "strip_casts [] = []"
  by pat_completeness auto
termination
proof (relation "measure length")
  show "wf (measure length)" by simp
next
  fix a b c :: char and rest :: string
  have "length (drop_brackets (dropWhile cast_class rest)) \<le> length rest"
    using length_dropWhile_le [of cast_class rest]
    by (auto simp: drop_brackets_def)
  then show "(drop_brackets (dropWhile cast_class rest), a # b # c # rest) \<in> measure length"
    by simp
next
  fix a b c :: char and rest :: string
  show "(b # c # rest, a # b # c # rest) \<in> measure length" by simp
qed

fun before_cast :: "string \<Rightarrow> string" where
  \<comment> \<open>\<open>s.split('::')[0]\<close>: the text before the first \<open>::\<close>, or all of \<open>s\<close>.\<close>
  "before_cast (a # b # rest) =
     (if a = CHR '':'' \<and> b = CHR '':'' then [] else a # before_cast (b # rest))"
| "before_cast s = s"

definition pg_mapDefault :: "string \<Rightarrow> string \<Rightarrow> string option" where
  "pg_mapDefault pgDefault udt =
     (if test_nextval pgDefault then None
      else if pgDefault = ''true'' \<or> pgDefault = ''false'' then Some (toUpperCase pgDefault)
      else if pgDefault = ''now()'' \<or> pgDefault = ''CURRENT_TIMESTAMP''
      then Some ''CURRENT_TIMESTAMP()''
      else if pgDefault = ''CURRENT_DATE'' then Some ''CURRENT_DATE()''
      else (let stripped = trim (strip_casts pgDefault)
            in if stripped \<noteq> [] then Some stripped else None))"

definition mapColumn :: "SourceColumn \<Rightarrow> SnowflakeColumn" where
  "mapColumn column =
     (let isSerial = isSerialColumn column;
          r = (if isSerial
               then \<lparr>snowflakeType = JStr (getSerialBaseType (udtName column)),
                     comment = (if str_truthy (columnDefault column)
                                then Some (''Auto-increment (was: '' @
                                       trim (before_cast (the (columnDefault column))) @ '')'')
                                else None)\<rparr>
               else pg_mapType column);
          defaultValue =
            (if str_truthy (columnDefault column) \<and> \<not> isSerial
             then pg_mapDefault (the (columnDefault column)) (udtName column)
             else None)
      in \<lparr>sf_name = columnName column,
          sf_type = snowflakeType r,
          sf_nullable = isNullable column,
          sf_defaultValue = defaultValue,
          sf_isIdentity = isSerial,
          sf_identitySeed = 1,
          sf_identityIncrement = 1,
          sf_comment = comment r\<rparr>)"

section \<open>Export of table data\<close>

text \<open>
  The data-movement engine, the database drivers, the file system, the clock and
  \<open>path.join\<close> are outside the program. Their answers are the fields of an environment:
  what happened when table number \<open>i\<close> of the batch was attempted is \<open>duckdb_copy env i\<close>
  (MySQL) or \<open>mssql_query env i\<close> followed by \<open>mssql_write env i\<close> (SQL Server), each
  either a thrown value or the data the code goes on with. The optional \<open>onProgress\<close>
  callback is a function of the caller: on each call it either returns or throws, and the
  calls that returned are kept in a list. \<open>ensureDir(outputDir)\<close> is awaited before the
  loop and \<open>onProgress\<close> is called at the head of each iteration, both outside every
  \<open>try\<close>: what they throw leaves \<open>exportTables\<close>.
\<close>

datatype ExportFormat = parquet | csv

fun format_str :: "ExportFormat \<Rightarrow> string" where
  "format_str parquet = ''parquet''"
| "format_str csv = ''csv''"

datatype js_thrown = JsError string | JsOther string

fun error_message :: "js_thrown \<Rightarrow> string" where
  \<comment> \<open>\<open>(err instanceof Error ? err : new Error(String(err))).message\<close>: an \<open>Error\<close> carries
      its message, any other thrown value is rendered by \<open>String\<close>.\<close>
  "error_message (JsError m) = m"
| "error_message (JsOther s) = s"

datatype ExportStatus = Success | Failure

record ExportResult =
  er_schemaName :: string
  er_tableName :: string
  er_status :: ExportStatus
  er_rowCount :: nat
  er_duration :: int
  er_filePath :: string
  er_fileSize :: nat
  er_error :: "string option"

type_synonym TableRef = "string \<times> string"

type_synonym ProgressCall = "string \<times> nat \<times> nat"

type_synonym ProgressCallback = "ProgressCall \<Rightarrow> js_thrown option"

record ExportEnv =
  path_join :: "string \<Rightarrow> string \<Rightarrow> string"
  ensureDir :: "string \<Rightarrow> js_thrown option"
  clock_start :: "nat \<Rightarrow> int"
  clock_end :: "nat \<Rightarrow> int"
  duckdb_copy :: "nat \<Rightarrow> js_thrown + (nat \<times> nat)"
  mssql_connect :: "js_thrown option"
  mssql_query :: "nat \<Rightarrow> js_thrown + nat"
  mssql_write :: "nat \<Rightarrow> js_thrown + nat"

definition replace_backslashes :: "string \<Rightarrow> string" where
  \<comment> \<open>\<open>s.replace(/\\/g, '/')\<close>\<close>
  "replace_backslashes s = map (\<lambda>c. if c = CHR 0x5C then CHR ''/'' else c) s"

definition outputFile :: "ExportEnv \<Rightarrow> string \<Rightarrow> TableRef \<Rightarrow> ExportFormat \<Rightarrow> string" where
  "outputFile env outputDir t fmt =
     replace_backslashes
       (path_join env outputDir (fst t @ ''.'' @ snd t @ ''.'' @ format_str fmt))"

definition failed_result :: "TableRef \<Rightarrow> int \<Rightarrow> string \<Rightarrow> js_thrown \<Rightarrow> ExportResult" where
  "failed_result t dur file err =
     \<lparr>er_schemaName = fst t, er_tableName = snd t, er_status = Failure, er_rowCount = 0,
      er_duration = dur, er_filePath = file, er_fileSize = 0,
      er_error = Some (error_message err)\<rparr>"

definition success_result :: "TableRef \<Rightarrow> nat \<Rightarrow> int \<Rightarrow> string \<Rightarrow> nat \<Rightarrow> ExportResult" where
  "success_result t rows dur file bytes =
     \<lparr>er_schemaName = fst t, er_tableName = snd t, er_status = Success, er_rowCount = rows,
      er_duration = dur, er_filePath = file, er_fileSize = bytes, er_error = None\<rparr>"

definition progress_call :: "TableRef list \<Rightarrow> nat \<Rightarrow> ProgressCall" where
  \<comment> \<open>the arguments \<open>(`${schemaName}.${tableName}`, i, tables.length)\<close>\<close>
  "progress_call tables i = (fst (tables ! i) @ ''.'' @ snd (tables ! i), i, length tables)"


definition report_progress ::
  "ProgressCallback option \<Rightarrow> TableRef list \<Rightarrow> nat \<Rightarrow> ProgressCall list \<Rightarrow>
   js_thrown + ProgressCall list" where
  \<comment> \<open>\<open>if (onProgress) onProgress(`${schemaName}.${tableName}`, i, tables.length)\<close>\<close>
  "report_progress onProgress tables i calls =
     (case onProgress of
        None \<Rightarrow> Inr calls
      | Some f \<Rightarrow>
          (case f (progress_call tables i) of
             Some err \<Rightarrow> Inl err
           | None \<Rightarrow> Inr (calls @ [progress_call tables i])))"

definition table_result ::
  "ExportEnv \<Rightarrow> TableRef list \<Rightarrow> ExportFormat \<Rightarrow> string \<Rightarrow> nat \<Rightarrow>
   js_thrown + (nat \<times> nat) \<Rightarrow> ExportResult" where
  \<comment> \<open>what one loop iteration pushes: the \<open>try\<close> block ends with the success entry, the
      \<open>catch\<close> block with the error entry; both adapters build them alike\<close>
  "table_result env tables fmt outputDir i outcome =
     (let t = tables ! i;
          start = clock_start env i;
          file = outputFile env outputDir t fmt
      in case outcome of
           Inr (rowCount, fileSize) \<Rightarrow>
             success_result t rowCount (clock_end env i - start) file fileSize
         | Inl err \<Rightarrow> failed_result t (clock_end env i - start) file err)"

subsection \<open>MySQL adapter\<close>





subsection \<open>SQL Server adapter\<close>

definition mssql_try_block :: "ExportEnv \<Rightarrow> nat \<Rightarrow> js_thrown + (nat \<times> nat)" where
  \<comment> \<open>both formats query the rows, then write the file and read its size; the row count
      is \<open>rows.length\<close>\<close>
  "mssql_try_block env i =
     (case mssql_query env i of
        Inl err \<Rightarrow> Inl err
      | Inr rows \<Rightarrow>
          (case mssql_write env i of
             Inl err \<Rightarrow> Inl err
           | Inr fileSize \<Rightarrow> Inr (rows, fileSize)))"

definition mssql_export_one ::
  "ExportEnv \<Rightarrow> TableRef list \<Rightarrow> ExportFormat \<Rightarrow> string \<Rightarrow> nat \<Rightarrow> ExportResult" where
  \<comment> \<open>the \<open>try\<close>/\<open>catch\<close> of one loop iteration\<close>
  "mssql_export_one env tables fmt outputDir i =
     table_result env tables fmt outputDir i (mssql_try_block env i)"

function mssql_export_loop ::
  "ExportEnv \<Rightarrow> TableRef list \<Rightarrow> ExportFormat \<Rightarrow> string \<Rightarrow> ProgressCallback option \<Rightarrow>
   nat \<Rightarrow> ExportResult list \<times> ProgressCall list \<Rightarrow>
   js_thrown + (ExportResult list \<times> ProgressCall list)" where
  "mssql_export_loop env tables fmt outputDir onProgress i (results, calls) =
     (if i < length tables
      then (case report_progress onProgress tables i calls of
              Inl err \<Rightarrow> Inl err
            | Inr calls' \<Rightarrow>
                mssql_export_loop env tables fmt outputDir onProgress (i + 1)
                  (results @ [mssql_export_one env tables fmt outputDir i], calls'))
      else Inr (results, calls))"
  by pat_completeness auto
termination
  by (relation "measure (\<lambda>(env, tables, fmt, outputDir, onProgress, i, acc). length tables - i)")
     auto

declare mssql_export_loop.simps [simp del]

fun mssql_connect_failed ::
  "ExportEnv \<Rightarrow> string \<Rightarrow> ExportFormat \<Rightarrow> js_thrown \<Rightarrow> TableRef list \<Rightarrow> ExportResult list \<Rightarrow>
   ExportResult list" where
  \<comment> \<open>\<open>for (const { schemaName, tableName } of tables) results.push({ ... })\<close>\<close>
  "mssql_connect_failed env outputDir fmt err [] results = results"
| "mssql_connect_failed env outputDir fmt err (t # ts) results =
     mssql_connect_failed env outputDir fmt err ts
       (results @ [failed_result t 0 (outputFile env outputDir t fmt) err])"

definition MssqlAdapter_exportTables ::
  "ExportEnv \<Rightarrow> TableRef list \<Rightarrow> ExportFormat \<Rightarrow> string \<Rightarrow> ProgressCallback option \<Rightarrow>
   js_thrown + (ExportResult list \<times> ProgressCall list)" where
  "MssqlAdapter_exportTables env tables fmt outputDir onProgress =
     (case ensureDir env outputDir of
        Some err \<Rightarrow> Inl err
      | None \<Rightarrow>
          (case mssql_connect env of
             Some err \<Rightarrow> Inr (mssql_connect_failed env outputDir fmt err tables [], [])
           | None \<Rightarrow> mssql_export_loop env tables fmt outputDir onProgress 0 ([], [])))"

section \<open>Connection state of the adapters\<close>

text \<open>
  \<open>mysql.adapter.ts\<close> declares \<open>let connection\<close> and the SQL Server adapter declares
  \<open>let pool\<close> at the top level of their modules; the adapter classes have no field for
  them. An adapter object is therefore only an identity, and every method reads and writes
  the variable of its module.
\<close>

datatype MysqlConnection = MysqlConnection nat

datatype MssqlConnectionPool = MssqlConnectionPool nat

record ModuleState =
  connection :: "MysqlConnection option"
  pool :: "MssqlConnectionPool option"

record SourceConnectionConfig =
  host :: string
  port :: int
  database :: string
  user :: string
  password :: string
  ssl :: bool

datatype AdapterError = ConnectionError string "js_thrown option" | DriverError js_thrown

datatype MysqlAdapter = MysqlAdapter nat

datatype MssqlAdapter = MssqlAdapter nat

fun error_cause :: "js_thrown \<Rightarrow> js_thrown option" where
  \<comment> \<open>\<open>err instanceof Error ? err : undefined\<close>\<close>
  "error_cause (JsError m) = Some (JsError m)"
| "error_cause (JsOther s) = None"

definition MysqlAdapter_connect ::
  "MysqlAdapter \<Rightarrow> SourceConnectionConfig \<Rightarrow> js_thrown + MysqlConnection \<Rightarrow> ModuleState \<Rightarrow>
   AdapterError option \<times> ModuleState" where
  \<comment> \<open>the third argument is what \<open>createConnection(config)\<close> gave\<close>
  "MysqlAdapter_connect this config created st =
     (case created of
        Inr c \<Rightarrow> (None, st\<lparr>connection := Some c\<rparr>)
      | Inl err \<Rightarrow>
          (Some (ConnectionError
             (''Failed to connect to MySQL at '' @ host config @ '':'' @ js_num (port config) @
              ''/'' @ database config)
             (error_cause err)), st))"

definition MysqlAdapter_disconnect ::
  "MysqlAdapter \<Rightarrow> js_thrown option \<Rightarrow> ModuleState \<Rightarrow> AdapterError option \<times> ModuleState" where
  \<comment> \<open>the second argument is what \<open>connection.end()\<close> gave, if it is called\<close>
  "MysqlAdapter_disconnect this ended st =
     (case connection st of
        None \<Rightarrow> (None, st)
      | Some c \<Rightarrow>
          (case ended of
             Some err \<Rightarrow> (Some (DriverError err), st)
           | None \<Rightarrow> (None, st\<lparr>connection := None\<rparr>)))"

definition MysqlAdapter_getConnection ::
  "MysqlAdapter \<Rightarrow> ModuleState \<Rightarrow> AdapterError + MysqlConnection" where
  \<comment> \<open>\<open>getConnection()\<close> as the methods of an adapter call it\<close>
  "MysqlAdapter_getConnection this st =
     (case connection st of
        None \<Rightarrow> Inl (ConnectionError ''Not connected to MySQL. Connect first.'' None)
      | Some c \<Rightarrow> Inr c)"

definition MssqlAdapter_connect ::
  "MssqlAdapter \<Rightarrow> SourceConnectionConfig \<Rightarrow> js_thrown + MssqlConnectionPool \<Rightarrow> ModuleState \<Rightarrow>
   AdapterError option \<times> ModuleState" where
  "MssqlAdapter_connect this config created st =
     (case created of
        Inr p \<Rightarrow> (None, st\<lparr>pool := Some p\<rparr>)
      | Inl err \<Rightarrow>
          (Some (ConnectionError
             (''Failed to connect to SQL Server at '' @ host config @ '':'' @
              js_num (port config) @ ''/'' @ database config)
             (error_cause err)), st))"

definition MssqlAdapter_disconnect ::
  "MssqlAdapter \<Rightarrow> js_thrown option \<Rightarrow> ModuleState \<Rightarrow> AdapterError option \<times> ModuleState" where
  "MssqlAdapter_disconnect this closed st =
     (case pool st of
        None \<Rightarrow> (None, st)
      | Some p \<Rightarrow>
          (case closed of
             Some err \<Rightarrow> (Some (DriverError err), st)
           | None \<Rightarrow> (None, st\<lparr>pool := None\<rparr>)))"

definition MssqlAdapter_getPool ::
  "MssqlAdapter \<Rightarrow> ModuleState \<Rightarrow> AdapterError + MssqlConnectionPool" where
  "MssqlAdapter_getPool this st =
     (case pool st of
        None \<Rightarrow> Inl (ConnectionError ''Not connected to SQL Server. Connect first.'' None)
      | Some p \<Rightarrow> Inr p)"

section \<open>Example inputs\<close>

definition example_column :: SourceColumn where
  "example_column =
     \<lparr>schemaName = ''public'', tableName = ''test_table'', columnName = ''test_col'',
      ordinalPosition = 1, columnDefault = None, isNullable = True, dataType = ''int'',
      udtName = ''int'', characterMaximumLength = None, numericPrecision = None,
      numericScale = None, isIdentity = False, identityGeneration = None\<rparr>"


definition example_env :: ExportEnv where
  "example_env =
     \<lparr>path_join = (\<lambda>d f. d @ ''/'' @ f),
      ensureDir = (\<lambda>d. None),
      clock_start = (\<lambda>i. 1000 * int i),
      clock_end = (\<lambda>i. 1000 * int i + 250),
      duckdb_copy = (\<lambda>i. if i = 1 then Inl (JsError ''Table not found'') else Inr (10, 2048)),
      mssql_connect = None,
      mssql_query = (\<lambda>i. if i = 1 then Inl (JsError ''Invalid object name'') else Inr 10),
      mssql_write = (\<lambda>i. Inr 2048)\<rparr>"

definition example_config :: SourceConnectionConfig where
  "example_config =
     \<lparr>host = ''localhost'', port = 3306, database = ''shop'', user = ''root'',
      password = ''secret'', ssl = False\<rparr>"


definition example_throwing_callback :: ProgressCallback where
  "example_throwing_callback =
     (\<lambda>call. if fst (snd call) = 1 then Some (JsError ''callback failed'') else None)"

section \<open>Properties of the type mappers\<close>

subsection \<open>Identity columns carry no default\<close>

text \<open>
  Claim C2. For all three engines, a column classified as identity or auto-generated
  (PostgreSQL: the \<open>isIdentity\<close> flag or a default matching \<open>nextval(\<close>; MySQL and
  SQL Server: the \<open>isIdentity\<close> flag) is mapped to a column with \<open>defaultValue\<close> null,
  whatever the raw default is; equivalently every mapper output with \<open>isIdentity\<close> true
  has \<open>defaultValue\<close> null.
\<close>

theorem identity_suppresses_default:
  "(isIdentity c \<or> (\<exists>d. columnDefault c = Some d \<and> test_nextval d)
      \<longrightarrow> sf_isIdentity (mapColumn c) \<and> sf_defaultValue (mapColumn c) = None) \<and>
   (isIdentity c
      \<longrightarrow> sf_isIdentity (mapMysqlColumn c) \<and> sf_defaultValue (mapMysqlColumn c) = None) \<and>
   (isIdentity c
      \<longrightarrow> sf_isIdentity (mapMssqlColumn c) \<and> sf_defaultValue (mapMssqlColumn c) = None) \<and>
   (sf_isIdentity (mapColumn c) \<longrightarrow> sf_defaultValue (mapColumn c) = None) \<and>
   (sf_isIdentity (mapMysqlColumn c) \<longrightarrow> sf_defaultValue (mapMysqlColumn c) = None) \<and>
   (sf_isIdentity (mapMssqlColumn c) \<longrightarrow> sf_defaultValue (mapMssqlColumn c) = None)"
  by (auto simp: mapColumn_def mapMysqlColumn_def mapMssqlColumn_def isSerialColumn_def
        str_truthy_def Let_def test_nextval_def)

text \<open>
  The theorem at an \<open>int4\<close> column whose default is a sequence call, and at a flagged
  identity column that still reports a default.
\<close>

theorem identity_suppresses_default_witness:
  "test_nextval ''nextval('x_id_seq'::regclass)'' \<and>
   sf_isIdentity (mapColumn (example_column
      \<lparr>udtName := ''int4'', columnDefault := Some ''nextval('x_id_seq'::regclass)''\<rparr>)) \<and>
   sf_defaultValue (mapColumn (example_column
      \<lparr>udtName := ''int4'', columnDefault := Some ''nextval('x_id_seq'::regclass)''\<rparr>)) = None \<and>
   sf_defaultValue (mapMysqlColumn (example_column
      \<lparr>columnDefault := Some ''7'', isIdentity := True\<rparr>)) = None \<and>
   sf_defaultValue (mapMssqlColumn (example_column
      \<lparr>columnDefault := Some ''((7))'', isIdentity := True\<rparr>)) = None"
proof -
  have n: "test_nextval ''nextval('x_id_seq'::regclass)''" by code_simp
  show ?thesis
    using n
      identity_suppresses_default [of "example_column
        \<lparr>udtName := ''int4'', columnDefault := Some ''nextval('x_id_seq'::regclass)''\<rparr>"]
      identity_suppresses_default [of "example_column
        \<lparr>columnDefault := Some ''7'', isIdentity := True\<rparr>"]
      identity_suppresses_default [of "example_column
        \<lparr>columnDefault := Some ''((7))'', isIdentity := True\<rparr>"]
    by simp
qed

subsection \<open>MySQL: \<open>tinyint\<close> as boolean\<close>

text \<open>
  Claim C7. \<open>mapMysqlColumn\<close> maps a \<open>tinyint\<close> column to \<open>BOOLEAN\<close> exactly when the
  lowercased full column type (\<open>udtName\<close>) is literally \<open>tinyint(1)\<close>, or when the data
  type is \<open>tinyint\<close> with precision 3, scale 0 and no character length; every other
  \<open>tinyint\<close> column maps to \<open>SMALLINT\<close>. The data type keyword selects the rule
  case-insensitively; the structural test reads it as reported.
\<close>

theorem mysql_tinyint_boolean_heuristic:
  assumes "toLowerCase (dataType c) = ''tinyint''"
  shows "sf_type (mapMysqlColumn c) =
           (if toLowerCase (udtName c) = ''tinyint(1)'' \<or>
               (dataType c = ''tinyint'' \<and> numericPrecision c = Some 3 \<and>
                numericScale c = Some 0 \<and> characterMaximumLength c = None)
            then JStr ''BOOLEAN'' else JStr ''SMALLINT'')"
  using assms by (simp add: mapMysqlColumn_def mysql_mapType_def isTinyint1_def Let_def)

theorem mysql_tinyint_boolean_heuristic_witness:
  "toLowerCase (dataType (example_column
      \<lparr>dataType := ''tinyint'', udtName := ''tinyint(1)''\<rparr>)) = ''tinyint'' \<and>
   sf_type (mapMysqlColumn (example_column
      \<lparr>dataType := ''tinyint'', udtName := ''tinyint(1)''\<rparr>)) = JStr ''BOOLEAN'' \<and>
   sf_type (mapMysqlColumn (example_column
      \<lparr>dataType := ''tinyint'', udtName := ''tinyint(4)''\<rparr>)) = JStr ''SMALLINT''"
proof -
  let ?c1 = "example_column\<lparr>dataType := ''tinyint'', udtName := ''tinyint(1)''\<rparr>"
  let ?c4 = "example_column\<lparr>dataType := ''tinyint'', udtName := ''tinyint(4)''\<rparr>"
  have h1: "toLowerCase (dataType ?c1) = ''tinyint''" by code_simp
  have h4: "toLowerCase (dataType ?c4) = ''tinyint''" by code_simp
  have u1: "toLowerCase (udtName ?c1) = ''tinyint(1)''" by code_simp
  have u4: "toLowerCase (udtName ?c4) = ''tinyint(4)''" by code_simp
  have p4: "numericPrecision ?c4 = None" by (simp add: example_column_def)
  show ?thesis
    using h1 u1 u4 p4 mysql_tinyint_boolean_heuristic [OF h1]
      mysql_tinyint_boolean_heuristic [OF h4]
    by simp
qed

subsection \<open>Numeric precision and scale\<close>

text \<open>
  Claim C5 says that, for every engine, a numeric or decimal column with precision \<open>P\<close>
  and scale \<open>S\<close> is mapped to exactly \<open>NUMBER(P,S)\<close>. The PostgreSQL mapper decides first
  whether the column is serial, and a serial column gets the type of
  \<open>getSerialBaseType\<close>: a \<open>numeric(10,0)\<close> column fed by a sequence becomes \<open>INTEGER\<close>.
\<close>

theorem numeric_precision_serial_counterexample:
  "sf_type (mapColumn (example_column
      \<lparr>dataType := ''numeric'', udtName := ''numeric'', numericPrecision := Some 10,
        numericScale := Some 0, columnDefault := Some ''nextval('order_seq'::regclass)''\<rparr>))
   = JStr ''INTEGER''"
  by code_simp

text \<open>
  Claim C5, amended. A MySQL or SQL Server column whose data type is \<open>decimal\<close> or
  \<open>numeric\<close> (in any letter case), and a PostgreSQL column that is not serial and whose
  \<open>udtName\<close> is \<open>numeric\<close> (or whose data type is \<open>numeric\<close> and whose \<open>udtName\<close> is not
  an array name), is mapped to \<open>NUMBER(P,S)\<close> when precision and scale are not null, to
  \<open>NUMBER(P)\<close> when only the scale is null, and to the engine's default when the
  precision is null: \<open>NUMBER(38,0)\<close>, \<open>NUMBER(10,0)\<close>, \<open>NUMBER(18,0)\<close>.
\<close>

theorem numeric_precision_rules:
  "((udtName c = ''numeric'' \<or> (dataType c = ''numeric'' \<and> \<not> startsWith ''_'' (udtName c)))
      \<and> \<not> isSerialColumn c \<longrightarrow>
    sf_type (mapColumn c) =
      JStr (case (numericPrecision c, numericScale c) of
              (Some p, Some s) \<Rightarrow> ''NUMBER('' @ js_num p @ '','' @ js_num s @ '')''
            | (Some p, None) \<Rightarrow> ''NUMBER('' @ js_num p @ '')''
            | (None, _) \<Rightarrow> ''NUMBER(38,0)'')) \<and>
   (toLowerCase (dataType c) = ''decimal'' \<or> toLowerCase (dataType c) = ''numeric'' \<longrightarrow>
    sf_type (mapMysqlColumn c) =
      JStr (case (numericPrecision c, numericScale c) of
              (Some p, Some s) \<Rightarrow> ''NUMBER('' @ js_num p @ '','' @ js_num s @ '')''
            | (Some p, None) \<Rightarrow> ''NUMBER('' @ js_num p @ '')''
            | (None, _) \<Rightarrow> ''NUMBER(10,0)'') \<and>
    sf_type (mapMssqlColumn c) =
      JStr (case (numericPrecision c, numericScale c) of
              (Some p, Some s) \<Rightarrow> ''NUMBER('' @ js_num p @ '','' @ js_num s @ '')''
            | (Some p, None) \<Rightarrow> ''NUMBER('' @ js_num p @ '')''
            | (None, _) \<Rightarrow> ''NUMBER(18,0)''))"
  by (auto simp: mapColumn_def mapMysqlColumn_def mapMssqlColumn_def pg_mapType_def
        mysql_mapType_def mssql_mapType_def Let_def startsWith_def
        split: option.splits)

theorem numeric_precision_rules_witness:
  "toLowerCase (dataType (example_column
      \<lparr>dataType := ''decimal'', udtName := ''decimal'', numericPrecision := Some 10,
        numericScale := Some 2\<rparr>)) = ''decimal'' \<and>
   sf_type (mapMssqlColumn (example_column
      \<lparr>dataType := ''decimal'', udtName := ''decimal'', numericPrecision := Some 10,
        numericScale := Some 2\<rparr>)) = JStr ''NUMBER(10,2)'' \<and>
   \<not> isSerialColumn (example_column
      \<lparr>dataType := ''numeric'', udtName := ''numeric'', numericPrecision := Some 12\<rparr>) \<and>
   sf_type (mapColumn (example_column
      \<lparr>dataType := ''numeric'', udtName := ''numeric'', numericPrecision := Some 12\<rparr>))
     = JStr ''NUMBER(12)''"
proof -
  let ?c = "example_column
      \<lparr>dataType := ''decimal'', udtName := ''decimal'', numericPrecision := Some 10,
        numericScale := Some 2\<rparr>"
  let ?p = "example_column
      \<lparr>dataType := ''numeric'', udtName := ''numeric'', numericPrecision := Some 12\<rparr>"
  have h: "toLowerCase (dataType ?c) = ''decimal''" by code_simp
  have s: "\<not> isSerialColumn ?p" by code_simp
  have n: "js_num 10 = ''10''" "js_num 2 = ''2''" "js_num 12 = ''12''" by code_simp+
  show ?thesis
    using h s n numeric_precision_rules [of ?c] numeric_precision_rules [of ?p]
    by (simp add: example_column_def)
qed

text \<open>
  Every PostgreSQL column classified as serial gets the type of \<open>getSerialBaseType\<close>,
  whatever its own type is.
\<close>

lemma pg_serial_column_type:
  "isSerialColumn c \<Longrightarrow> sf_type (mapColumn c) = JStr (getSerialBaseType (udtName c))"
  by (simp add: mapColumn_def Let_def)

subsection \<open>The length \<open>-1\<close>\<close>

text \<open>
  Claim C4 says that, for every engine, a variable-length character or binary column of
  length \<open>-1\<close> is mapped to plain \<open>VARCHAR\<close> or \<open>BINARY\<close>. Only the SQL Server mapper
  tests for \<open>-1\<close>; the PostgreSQL and MySQL mappers test the length for truthiness, and
  \<open>-1\<close> is truthy.
\<close>

theorem unbounded_length_counterexample:
  "sf_type (mapColumn (example_column
      \<lparr>dataType := ''character varying'', udtName := ''varchar'',
        characterMaximumLength := Some (- 1)\<rparr>)) = JStr ''VARCHAR(-1)'' \<and>
   sf_type (mapMysqlColumn (example_column
      \<lparr>dataType := ''varchar'', udtName := ''varchar'',
        characterMaximumLength := Some (- 1)\<rparr>)) = JStr ''VARCHAR(-1)''"
  by code_simp

text \<open>
  Claim C4, amended. The SQL Server mapper maps a \<open>varchar\<close> or \<open>nvarchar\<close> column of
  length \<open>-1\<close> to \<open>VARCHAR\<close> and a \<open>binary\<close> or \<open>varbinary\<close> column of length \<open>-1\<close> to
  \<open>BINARY\<close>. The MySQL mapper maps \<open>binary\<close> and \<open>varbinary\<close> to \<open>BINARY\<close> whatever the
  length. The MySQL and PostgreSQL mappers have no sentinel: a \<open>varchar\<close> column (in
  PostgreSQL a non-serial one) is mapped to \<open>VARCHAR\<close> when its length is null or 0 and
  to \<open>VARCHAR(n)\<close> for every other length \<open>n\<close>.
\<close>

theorem unbounded_length_sentinel:
  "((toLowerCase (dataType c) = ''varchar'' \<or> toLowerCase (dataType c) = ''nvarchar'') \<and>
      characterMaximumLength c = Some (- 1) \<longrightarrow>
    sf_type (mapMssqlColumn c) = JStr ''VARCHAR'') \<and>
   ((toLowerCase (dataType c) = ''binary'' \<or> toLowerCase (dataType c) = ''varbinary'') \<and>
      characterMaximumLength c = Some (- 1) \<longrightarrow>
    sf_type (mapMssqlColumn c) = JStr ''BINARY'') \<and>
   (toLowerCase (dataType c) = ''binary'' \<or> toLowerCase (dataType c) = ''varbinary'' \<longrightarrow>
    sf_type (mapMysqlColumn c) = JStr ''BINARY'') \<and>
   (toLowerCase (dataType c) = ''varchar'' \<longrightarrow>
    sf_type (mapMysqlColumn c) =
      (case characterMaximumLength c of
         None \<Rightarrow> JStr ''VARCHAR''
       | Some n \<Rightarrow> if n = 0 then JStr ''VARCHAR'' else JStr (''VARCHAR('' @ js_num n @ '')''))) \<and>
   (udtName c = ''varchar'' \<and> dataType c = ''character varying'' \<and> \<not> isSerialColumn c \<longrightarrow>
    sf_type (mapColumn c) =
      (case characterMaximumLength c of
         None \<Rightarrow> JStr ''VARCHAR''
       | Some n \<Rightarrow> if n = 0 then JStr ''VARCHAR'' else JStr (''VARCHAR('' @ js_num n @ '')'')))"
  by (auto simp: mapColumn_def mapMysqlColumn_def mapMssqlColumn_def pg_mapType_def
        mysql_mapType_def mssql_mapType_def Let_def startsWith_def num_truthy_def
        record_get_def MYSQL_SIMPLE_TYPE_MAP_def
        split: option.splits)

theorem unbounded_length_sentinel_witness:
  "toLowerCase (dataType (example_column
      \<lparr>dataType := ''nvarchar'', udtName := ''nvarchar'',
        characterMaximumLength := Some (- 1)\<rparr>)) = ''nvarchar'' \<and>
   sf_type (mapMssqlColumn (example_column
      \<lparr>dataType := ''nvarchar'', udtName := ''nvarchar'',
        characterMaximumLength := Some (- 1)\<rparr>)) = JStr ''VARCHAR'' \<and>
   toLowerCase (dataType (example_column
      \<lparr>dataType := ''varbinary'', udtName := ''varbinary'',
        characterMaximumLength := Some (- 1)\<rparr>)) = ''varbinary'' \<and>
   sf_type (mapMssqlColumn (example_column
      \<lparr>dataType := ''varbinary'', udtName := ''varbinary'',
        characterMaximumLength := Some (- 1)\<rparr>)) = JStr ''BINARY''"
proof -
  let ?v = "example_column
      \<lparr>dataType := ''nvarchar'', udtName := ''nvarchar'',
        characterMaximumLength := Some (- 1)\<rparr>"
  let ?b = "example_column
      \<lparr>dataType := ''varbinary'', udtName := ''varbinary'',
        characterMaximumLength := Some (- 1)\<rparr>"
  have hv: "toLowerCase (dataType ?v) = ''nvarchar''" by code_simp
  have hb: "toLowerCase (dataType ?b) = ''varbinary''" by code_simp
  show ?thesis
    using hv hb unbounded_length_sentinel [of ?v] unbounded_length_sentinel [of ?b]
    by (simp add: example_column_def)
qed

subsection \<open>Binary types\<close>

text \<open>
  Claim C8 says that, for every engine, a \<open>binary\<close> or \<open>varbinary\<close> column of declared
  length \<open>L\<close> is mapped to \<open>BINARY(L)\<close>. The MySQL table lists \<open>binary\<close> and \<open>varbinary\<close>
  with the plain type, so a MySQL \<open>varbinary(16)\<close> column becomes \<open>BINARY\<close>.
\<close>

theorem binary_family_counterexample:
  "sf_type (mapMysqlColumn (example_column
      \<lparr>dataType := ''varbinary'', udtName := ''varbinary(16)'',
        characterMaximumLength := Some 16\<rparr>)) = JStr ''BINARY''"
  by code_simp

text \<open>
  Claim C8, amended. The SQL Server mapper maps a \<open>binary\<close> or \<open>varbinary\<close> column whose
  length \<open>L\<close> is neither 0 nor \<open>-1\<close> to \<open>BINARY(L)\<close>, as it does for the character types.
  The MySQL mapper maps \<open>tinyblob\<close>, \<open>blob\<close>, \<open>mediumblob\<close>, \<open>longblob\<close>, \<open>binary\<close> and
  \<open>varbinary\<close> to the plain \<open>BINARY\<close>. The PostgreSQL mapper has one binary type,
  \<open>bytea\<close>, mapped to the plain \<open>BINARY\<close>.
\<close>

theorem binary_family_mapping:
  "((toLowerCase (dataType c) = ''binary'' \<or> toLowerCase (dataType c) = ''varbinary'') \<and>
      characterMaximumLength c = Some n \<and> n \<noteq> 0 \<and> n \<noteq> - 1 \<longrightarrow>
    sf_type (mapMssqlColumn c) = JStr (''BINARY('' @ js_num n @ '')'')) \<and>
   (toLowerCase (dataType c) \<in>
      {''tinyblob'', ''blob'', ''mediumblob'', ''longblob'', ''binary'', ''varbinary''} \<longrightarrow>
    sf_type (mapMysqlColumn c) = JStr ''BINARY'') \<and>
   (udtName c = ''bytea'' \<and> dataType c = ''bytea'' \<and> \<not> isSerialColumn c \<longrightarrow>
    sf_type (mapColumn c) = JStr ''BINARY'')"
  by (auto simp: mapColumn_def mapMysqlColumn_def mapMssqlColumn_def pg_mapType_def
        mysql_mapType_def mssql_mapType_def Let_def startsWith_def num_truthy_def
        record_get_def js_or_def MYSQL_SIMPLE_TYPE_MAP_def PG_SIMPLE_TYPE_MAP_def
        split: option.splits)

theorem binary_family_mapping_witness:
  "toLowerCase (dataType (example_column
      \<lparr>dataType := ''binary'', udtName := ''binary'',
        characterMaximumLength := Some 16\<rparr>)) = ''binary'' \<and>
   sf_type (mapMssqlColumn (example_column
      \<lparr>dataType := ''binary'', udtName := ''binary'',
        characterMaximumLength := Some 16\<rparr>)) = JStr ''BINARY(16)'' \<and>
   toLowerCase (dataType (example_column
      \<lparr>dataType := ''longblob'', udtName := ''longblob''\<rparr>)) = ''longblob'' \<and>
   sf_type (mapMysqlColumn (example_column
      \<lparr>dataType := ''longblob'', udtName := ''longblob''\<rparr>)) = JStr ''BINARY''"
proof -
  let ?b = "example_column
      \<lparr>dataType := ''binary'', udtName := ''binary'', characterMaximumLength := Some 16\<rparr>"
  let ?l = "example_column\<lparr>dataType := ''longblob'', udtName := ''longblob''\<rparr>"
  have hb: "toLowerCase (dataType ?b) = ''binary''" by code_simp
  have hl: "toLowerCase (dataType ?l) = ''longblob''" by code_simp
  have n: "js_num 16 = ''16''" by code_simp
  show ?thesis
    using hb hl n binary_family_mapping [of ?b 16] binary_family_mapping [of ?l 0]
    by (simp add: example_column_def)
qed

subsection \<open>Types that no rule names\<close>

text \<open>
  A data type that is in none of the rule tables and is not the name of a member that
  objects inherit is mapped to \<open>VARCHAR\<close> with a comment that cites it.
\<close>

lemma mysql_unknown_type_fallback:
  assumes "dt = toLowerCase (dataType c)"
    and "dt \<notin> {''tinyint'', ''enum'', ''set'', ''decimal'', ''numeric'', ''varchar'', ''char''}"
    and "dt \<notin> fst ` set MYSQL_SIMPLE_TYPE_MAP"
    and "dt \<notin> set object_prototype_members"
  shows "sf_type (mapMysqlColumn c) = JStr ''VARCHAR'' \<and>
         sf_comment (mapMysqlColumn c) =
           Some (''Unmapped MySQL type: '' @ toLowerCase (udtName c) @ '' ('' @ dt @ '')'')"
proof -
  have "map_of MYSQL_SIMPLE_TYPE_MAP dt = None"
    using assms(3) by (simp add: map_of_eq_None_iff)
  then have "record_get MYSQL_SIMPLE_TYPE_MAP dt = None"
    using assms(4) by (simp add: record_get_def)
  then show ?thesis
    using assms(1,2) by (simp add: mapMysqlColumn_def mysql_mapType_def Let_def)
qed

lemma mssql_unknown_type_fallback:
  assumes "dt = toLowerCase (dataType c)"
    and "dt \<notin> {''decimal'', ''numeric'', ''varchar'', ''nvarchar'', ''char'', ''nchar'',
                 ''binary'', ''varbinary''}"
    and "dt \<notin> fst ` set MSSQL_SIMPLE_TYPE_MAP"
    and "dt \<notin> set object_prototype_members"
  shows "sf_type (mapMssqlColumn c) = JStr ''VARCHAR'' \<and>
         sf_comment (mapMssqlColumn c) = Some (''Unmapped MSSQL type: '' @ dt)"
proof -
  have "map_of MSSQL_SIMPLE_TYPE_MAP dt = None"
    using assms(3) by (simp add: map_of_eq_None_iff)
  then have "record_get MSSQL_SIMPLE_TYPE_MAP dt = None"
    using assms(4) by (simp add: record_get_def)
  then show ?thesis
    using assms(1,2) by (simp add: mapMssqlColumn_def mssql_mapType_def Let_def)
qed

lemma pg_unknown_type_fallback:
  assumes "\<not> isSerialColumn c"
    and "\<not> startsWith ''_'' (udtName c)"
    and "udtName c \<notin> {''numeric'', ''varchar'', ''bpchar'', ''char''}"
    and "dataType c \<notin> {''numeric'', ''character varying'', ''character'', ''USER-DEFINED''}"
    and "udtName c \<notin> fst ` set PG_SIMPLE_TYPE_MAP"
    and "dataType c \<notin> fst ` set PG_SIMPLE_TYPE_MAP"
    and "udtName c \<notin> set object_prototype_members"
    and "dataType c \<notin> set object_prototype_members"
  shows "sf_type (mapColumn c) = JStr ''VARCHAR'' \<and>
         sf_comment (mapColumn c) =
           Some (''Unmapped PostgreSQL type: '' @ udtName c @ '' ('' @ dataType c @ '')'')"
proof -
  have "map_of PG_SIMPLE_TYPE_MAP (udtName c) = None"
    and "map_of PG_SIMPLE_TYPE_MAP (dataType c) = None"
    using assms(5,6) by (simp_all add: map_of_eq_None_iff)
  then have "record_get PG_SIMPLE_TYPE_MAP (udtName c) = None"
    and "record_get PG_SIMPLE_TYPE_MAP (dataType c) = None"
    using assms(7,8) by (simp_all add: record_get_def)
  then show ?thesis
    using assms(1-4) by (simp add: mapColumn_def pg_mapType_def Let_def js_or_def)
qed

text \<open>
  Claim C1 says that every column whose \<open>dataType\<close> and \<open>udtName\<close> match no rule is
  mapped, without an exception, to \<open>VARCHAR\<close> with a comment naming the unmapped type.
  No mapper raises. But the table lookup \<open>SIMPLE_TYPE_MAP[key]\<close> also answers for the
  members every object inherits: for the key \<open>constructor\<close> it yields a function, which
  is truthy, and the mapper returns that function as the type, with no comment. This is
  so in all three mappers; in PostgreSQL the key is the name of a user-defined type.
\<close>

theorem mapper_lookup_inherited_member:
  "sf_type (mapMysqlColumn (example_column
      \<lparr>dataType := ''constructor'', udtName := ''constructor''\<rparr>)) = JInherited ''constructor'' \<and>
   sf_comment (mapMysqlColumn (example_column
      \<lparr>dataType := ''constructor'', udtName := ''constructor''\<rparr>)) = None \<and>
   sf_type (mapMssqlColumn (example_column
      \<lparr>dataType := ''constructor'', udtName := ''constructor''\<rparr>)) = JInherited ''constructor'' \<and>
   sf_comment (mapMssqlColumn (example_column
      \<lparr>dataType := ''constructor'', udtName := ''constructor''\<rparr>)) = None \<and>
   sf_type (mapColumn (example_column
      \<lparr>dataType := ''USER-DEFINED'', udtName := ''constructor''\<rparr>)) = JInherited ''constructor'' \<and>
   sf_comment (mapColumn (example_column
      \<lparr>dataType := ''USER-DEFINED'', udtName := ''constructor''\<rparr>)) = None"
  by code_simp

section \<open>Properties of the default-value translation\<close>

text \<open>
  The rewrites of a default, for a column that is not an identity column: the SQL Server
  mapper drops a first \<open>(\<close> and a last \<open>)\<close> as long as both are there, so one or two
  enclosing layers are peeled; it maps the five current-timestamp functions, in any letter
  case, to \<open>CURRENT_TIMESTAMP()\<close>, and lets any other non-empty text through. The
  PostgreSQL mapper maps \<open>now()\<close> and \<open>CURRENT_TIMESTAMP\<close> to \<open>CURRENT_TIMESTAMP()\<close> and
  the boolean literals to upper case.
\<close>

lemma strip_outer_parens_wrap:
  "strip_outer_parens (''('' @ x @ '')'') = strip_outer_parens x"
proof -
  have "startsWith ''('' (''('' @ x @ '')'')" by (simp add: startsWith_def)
  moreover have "endsWith '')'' (''('' @ x @ '')'')" by (simp add: endsWith_def)
  moreover have "slice_1_m1 (''('' @ x @ '')'') = x" by (simp add: slice_1_m1_def butlast_append)
  ultimately show ?thesis by (subst strip_outer_parens.simps) simp
qed

lemma strip_outer_parens_done:
  "\<not> (startsWith ''('' x \<and> endsWith '')'' x) \<Longrightarrow> strip_outer_parens x = x"
  by (subst strip_outer_parens.simps) auto

lemma mssql_default_timestamp:
  assumes "str_truthy (columnDefault c)" and "\<not> isIdentity c"
    and "toLowerCase (strip_outer_parens (the (columnDefault c))) \<in>
           {''getdate()'', ''sysdatetime()'', ''getutcdate()'', ''sysutcdatetime()'',
            ''sysdatetimeoffset()''}"
  shows "sf_defaultValue (mapMssqlColumn c) = Some ''CURRENT_TIMESTAMP()''"
  using assms by (auto simp: mapMssqlColumn_def mssql_mapDefault_def Let_def)

lemma mssql_default_passes_through:
  assumes "columnDefault c = Some (''('' @ x @ '')'') \<or> columnDefault c = Some (''(('' @ x @ ''))'')"
    and "\<not> isIdentity c"
    and "\<not> (startsWith ''('' x \<and> endsWith '')'' x)" and "x \<noteq> []"
    and "toLowerCase x \<notin>
           {''getdate()'', ''sysdatetime()'', ''getutcdate()'', ''sysutcdatetime()'',
            ''sysdatetimeoffset()'', ''newid()''}"
  shows "sf_defaultValue (mapMssqlColumn c) = Some x"
proof -
  have w1: "strip_outer_parens (''('' @ x @ '')'') = x"
    using strip_outer_parens_wrap [of x] strip_outer_parens_done [OF assms(3)] by simp
  have "''(('' @ x @ ''))'' = ''('' @ (''('' @ x @ '')'') @ '')''" by simp
  then have w2: "strip_outer_parens (''(('' @ x @ ''))'') = x"
    using w1 strip_outer_parens_wrap [of "''('' @ x @ '')''"] by simp
  show ?thesis
    using assms w1 w2
    by (auto simp: mapMssqlColumn_def mssql_mapDefault_def Let_def str_truthy_def)
qed

lemma pg_default_rewrites:
  assumes "\<not> isIdentity c"
  shows "columnDefault c = Some ''now()'' \<or> columnDefault c = Some ''CURRENT_TIMESTAMP''
           \<Longrightarrow> sf_defaultValue (mapColumn c) = Some ''CURRENT_TIMESTAMP()''"
    and "columnDefault c = Some ''true'' \<Longrightarrow> sf_defaultValue (mapColumn c) = Some ''TRUE''"
    and "columnDefault c = Some ''false'' \<Longrightarrow> sf_defaultValue (mapColumn c) = Some ''FALSE''"
proof -
  have n: "\<not> test_nextval ''now()''" "\<not> test_nextval ''CURRENT_TIMESTAMP''"
    "\<not> test_nextval ''true''" "\<not> test_nextval ''false''" by code_simp+
  have u: "toUpperCase ''true'' = ''TRUE''" "toUpperCase ''false'' = ''FALSE''" by code_simp+
  show "columnDefault c = Some ''now()'' \<or> columnDefault c = Some ''CURRENT_TIMESTAMP''
           \<Longrightarrow> sf_defaultValue (mapColumn c) = Some ''CURRENT_TIMESTAMP()''"
    using assms n
    by (auto simp: mapColumn_def isSerialColumn_def pg_mapDefault_def str_truthy_def Let_def)
  show "columnDefault c = Some ''true'' \<Longrightarrow> sf_defaultValue (mapColumn c) = Some ''TRUE''"
    using assms n u
    by (auto simp: mapColumn_def isSerialColumn_def pg_mapDefault_def str_truthy_def Let_def)
  show "columnDefault c = Some ''false'' \<Longrightarrow> sf_defaultValue (mapColumn c) = Some ''FALSE''"
    using assms n u
    by (auto simp: mapColumn_def isSerialColumn_def pg_mapDefault_def str_truthy_def Let_def)
qed

lemma default_translation_examples:
  "sf_defaultValue (mapMssqlColumn (example_column
      \<lparr>dataType := ''datetime'', columnDefault := Some ''(getdate())''\<rparr>))
     = Some ''CURRENT_TIMESTAMP()''"
  "sf_defaultValue (mapMssqlColumn (example_column
      \<lparr>columnDefault := Some ''((0))''\<rparr>)) = Some ''0''"
  "sf_defaultValue (mapColumn (example_column
      \<lparr>dataType := ''character varying'', udtName := ''varchar'',
        columnDefault := Some (CHR 0x27 # ''active'' @ CHR 0x27 # ''::character varying'')\<rparr>))
     = Some (CHR 0x27 # ''active'' @ [CHR 0x27])"
  by code_simp+

text \<open>
  Claim C6 says, among the rewrites of a default, that a SQL Server default has its
  enclosing one or two layers of parentheses peeled and that an unrecognized default
  passes through verbatim. The loop that peels compares only the first and the last
  character. SQL Server stores the default \<open>1 + 2\<close> as \<open>((1)+(2))\<close>; after the enclosing
  layer is gone the text \<open>(1)+(2)\<close> still starts with \<open>(\<close> and ends with \<open>)\<close>, and the
  loop removes these two, which do not enclose anything.
\<close>

theorem mssql_default_unbalanced_parentheses:
  "sf_defaultValue (mapMssqlColumn (example_column
      \<lparr>columnDefault := Some ''((1)+(2))''\<rparr>)) = Some ''1)+(2''"
  by code_simp

section \<open>Properties of the export\<close>







lemma mssql_connect_failed_eq:
  "mssql_connect_failed env outputDir fmt err ts results =
     results @ map (\<lambda>t. failed_result t 0 (outputFile env outputDir t fmt) err) ts"
  by (induction ts arbitrary: results) simp_all















text \<open>
  Claim C10. When the SQL Server adapter cannot open its export connection,
  \<open>exportTables\<close> does not throw: it returns one entry per requested table, in order,
  each with status \<open>error\<close>, row count 0, duration 0, file size 0, the output path
  computed for the table and the message of the connection error; \<open>onProgress\<close> is never
  called.
\<close>

theorem mssql_export_without_connection:
  assumes "ensureDir env outputDir = None" and "mssql_connect env = Some err"
  shows "MssqlAdapter_exportTables env tables fmt outputDir onProgress =
           Inr (map (\<lambda>t. \<lparr>er_schemaName = fst t, er_tableName = snd t, er_status = Failure,
                           er_rowCount = 0, er_duration = 0,
                           er_filePath = outputFile env outputDir t fmt, er_fileSize = 0,
                           er_error = Some (error_message err)\<rparr>) tables,
                [])"
  using assms
  by (simp add: MssqlAdapter_exportTables_def mssql_connect_failed_eq failed_result_def)

text \<open>
  The theorem with a callback that would throw at the second table if it were called.
\<close>

theorem mssql_export_without_connection_witness:
  "ensureDir (example_env\<lparr>mssql_connect := Some (JsError ''ECONNREFUSED'')\<rparr>) ''out'' = None \<and>
   MssqlAdapter_exportTables (example_env\<lparr>mssql_connect := Some (JsError ''ECONNREFUSED'')\<rparr>)
       [(''dbo'', ''a''), (''dbo'', ''b'')] csv ''out'' (Some example_throwing_callback) =
     Inr ([\<lparr>er_schemaName = ''dbo'', er_tableName = ''a'', er_status = Failure, er_rowCount = 0,
             er_duration = 0, er_filePath = ''out/dbo.a.csv'', er_fileSize = 0,
             er_error = Some ''ECONNREFUSED''\<rparr>,
           \<lparr>er_schemaName = ''dbo'', er_tableName = ''b'', er_status = Failure, er_rowCount = 0,
             er_duration = 0, er_filePath = ''out/dbo.b.csv'', er_fileSize = 0,
             er_error = Some ''ECONNREFUSED''\<rparr>], [])"
proof -
  let ?env = "example_env\<lparr>mssql_connect := Some (JsError ''ECONNREFUSED'')\<rparr>"
  have d: "ensureDir ?env ''out'' = None" by (simp add: example_env_def)
  have c: "mssql_connect ?env = Some (JsError ''ECONNREFUSED'')" by simp
  have f: "outputFile ?env ''out'' (''dbo'', ''a'') csv = ''out/dbo.a.csv''"
    "outputFile ?env ''out'' (''dbo'', ''b'') csv = ''out/dbo.b.csv''"
    by (simp_all add: outputFile_def example_env_def replace_backslashes_def)
  show ?thesis
    using d f mssql_export_without_connection [OF d c, of "[(''dbo'', ''a''), (''dbo'', ''b'')]" csv
        "Some example_throwing_callback"]
    by simp
qed

section \<open>Properties of the connection state\<close>

text \<open>
  Claim C9 says that the connection is owned by the adapter instance, so that \<open>connect\<close>
  or \<open>disconnect\<close> on one instance leaves the connection of another instance of the same
  engine unchanged. The connection is a variable of the module: after instance 1
  connects, instance 2, which was not connected, reads the connection of instance 1;
  after instance 1 disconnects, instance 2 has lost its pool.
\<close>

theorem adapter_connection_shared_counterexample:
  "MysqlAdapter 1 \<noteq> MysqlAdapter 2 \<and>
   MysqlAdapter_getConnection (MysqlAdapter 2) \<lparr>connection = None, pool = None\<rparr> =
     Inl (ConnectionError ''Not connected to MySQL. Connect first.'' None) \<and>
   MysqlAdapter_getConnection (MysqlAdapter 2)
     (snd (MysqlAdapter_connect (MysqlAdapter 1) example_config (Inr (MysqlConnection 7))
        \<lparr>connection = None, pool = None\<rparr>)) = Inr (MysqlConnection 7) \<and>
   MssqlAdapter_getPool (MssqlAdapter 2)
     (snd (MssqlAdapter_disconnect (MssqlAdapter 1) None
        \<lparr>connection = None, pool = Some (MssqlConnectionPool 5)\<rparr>)) =
     Inl (ConnectionError ''Not connected to SQL Server. Connect first.'' None)"
  by (simp add: MysqlAdapter_getConnection_def MysqlAdapter_connect_def
        MssqlAdapter_getPool_def MssqlAdapter_disconnect_def)

text \<open>
  Claim C9, amended. The connection established by \<open>connect\<close> is held in one variable
  per engine module, shared by all adapter instances of that engine: all instances read
  the same connection, a successful \<open>connect\<close> on any instance replaces it for all, a
  failed \<open>connect\<close> leaves it as it was, and a successful \<open>disconnect\<close> on any instance
  clears it for all. The MySQL and the SQL Server modules have separate variables, and
  the operations of one engine leave the connection of the other unchanged.
\<close>

theorem module_level_connection_state:
  "MysqlAdapter_getConnection a st = MysqlAdapter_getConnection b st \<and>
   MssqlAdapter_getPool a' st = MssqlAdapter_getPool b' st \<and>
   MysqlAdapter_getConnection b (snd (MysqlAdapter_connect a config (Inr c) st)) = Inr c \<and>
   MssqlAdapter_getPool b' (snd (MssqlAdapter_connect a' config (Inr p) st)) = Inr p \<and>
   snd (MysqlAdapter_connect a config (Inl err) st) = st \<and>
   snd (MssqlAdapter_connect a' config (Inl err) st) = st \<and>
   connection (snd (MysqlAdapter_disconnect a None st)) = None \<and>
   pool (snd (MssqlAdapter_disconnect a' None st)) = None \<and>
   pool (snd (MysqlAdapter_connect a config created st)) = pool st \<and>
   pool (snd (MysqlAdapter_disconnect a ended st)) = pool st \<and>
   connection (snd (MssqlAdapter_connect a' config created' st)) = connection st \<and>
   connection (snd (MssqlAdapter_disconnect a' ended st)) = connection st"
  by (auto simp: MysqlAdapter_getConnection_def MysqlAdapter_connect_def
        MysqlAdapter_disconnect_def MssqlAdapter_getPool_def MssqlAdapter_connect_def
        MssqlAdapter_disconnect_def split: option.splits sum.splits)

end
